theory Spec2Isabelle
  imports Main "HOL-Library.Sublist" "HOL-Library.Char_ord" "HOL-Library.List_Lexorder"
    "HOL-Library.Multiset"
begin

section \<open>Strings\<close>

text \<open>
  A Python \<open>str\<close> is modelled as a \<open>string\<close> whose characters are the code points
  below 256 (Latin-1); code points from 256 on are outside the model. \<open>str.lower()\<close>
  adds 32 to the upper-case code points \<open>A..Z\<close>, \<open>U+00C0..U+00D6\<close> and
  \<open>U+00D8..U+00DE\<close> and leaves every other code point below 256 alone. Bit 5 (value 32)
  is clear in each of these upper-case code points, so adding 32 is setting that bit.
\<close>

definition isupper :: "char \<Rightarrow> bool" where
  "isupper c =
     (let n = (of_char c :: nat)
      in (65 \<le> n \<and> n \<le> 90) \<or> (192 \<le> n \<and> n \<le> 222 \<and> n \<noteq> 215))"

fun set_bit5 :: "char \<Rightarrow> char" where
  "set_bit5 (Char b0 b1 b2 b3 b4 b5 b6 b7) = Char b0 b1 b2 b3 b4 True b6 b7"

definition lower_char :: "char \<Rightarrow> char" where
  "lower_char c = (if isupper c then set_bit5 c else c)"

definition lower :: "string \<Rightarrow> string" where
  "lower s = map lower_char s"

text \<open>\<open>s.startswith(p)\<close> and the substring test \<open>p in s\<close> of Python.\<close>

fun startswith :: "string \<Rightarrow> string \<Rightarrow> bool" where
  "startswith s [] = True"
| "startswith [] (p # ps) = False"
| "startswith (c # cs) (p # ps) = (c = p \<and> startswith cs ps)"

fun str_in :: "string \<Rightarrow> string \<Rightarrow> bool" where
  "str_in p [] = (p = [])"
| "str_in p (c # cs) = (startswith (c # cs) p \<or> str_in p cs)"

text \<open>\<open>sep.join(xs)\<close>.\<close>

fun str_join :: "string \<Rightarrow> string list \<Rightarrow> string" where
  "str_join sep [] = []"
| "str_join sep [x] = x"
| "str_join sep (x # y # ys) = x @ sep @ str_join sep (y # ys)"

text \<open>
  Truthiness of an optional string (\<open>if x:\<close>): \<open>None\<close> and the empty string are false.
  \<open>py_str\<close> is the text an f-string puts for such a value.
\<close>

fun truthy :: "string option \<Rightarrow> bool" where
  "truthy None = False"
| "truthy (Some s) = (s \<noteq> [])"

fun py_str :: "string option \<Rightarrow> string" where
  "py_str None = ''None''"
| "py_str (Some s) = s"

section \<open>Regular expressions of the \<open>re\<close> module\<close>

text \<open>
  The patterns of \<open>main.py\<close> use character classes, sequence, alternation, greedy
  \<open>?\<close>, and greedy \<open>*\<close> and \<open>+\<close> over a character class. Groups only capture; the
  code reads group 0, or a group 1 that encloses the whole pattern.

  \<open>\d\<close> matches the decimal digits and \<open>\s\<close> the whitespace of \<open>str.isspace\<close>; below
  code point 256 these are \<open>0..9\<close> and the code points 9-13, 28-32, 133 and 160.
\<close>

datatype cclass = Digit | Space | Ch char

definition whitespace :: "char list" where
  "whitespace = [CHR 0x09, CHR 0x0A, CHR 0x0B, CHR 0x0C, CHR 0x0D, CHR 0x1C, CHR 0x1D,
                 CHR 0x1E, CHR 0x1F, CHR 0x20, CHR 0x85, CHR 0xA0]"

fun cls :: "cclass \<Rightarrow> char \<Rightarrow> bool" where
  "cls Digit c = (c \<in> set ''0123456789'')"
| "cls Space c = (c \<in> set whitespace)"
| "cls (Ch x) c = (c = x)"

datatype regex =
    Eps
  | Cls cclass
  | Seq regex regex
  | Alt regex regex
  | Opt regex
  | Star cclass

text \<open>\<open>x+\<close> is \<open>xx*\<close>, \<open>x{1,2}\<close> is \<open>xx?\<close>, \<open>x{2}\<close> is \<open>xx\<close>, a literal is the sequence of its characters.\<close>

definition Plus :: "cclass \<Rightarrow> regex" where
  "Plus k = Seq (Cls k) (Star k)"

definition Rep12 :: "regex \<Rightarrow> regex" where
  "Rep12 r = Seq r (Opt r)"

definition Rep2 :: "regex \<Rightarrow> regex" where
  "Rep2 r = Seq r r"

fun Lit :: "string \<Rightarrow> regex" where
  "Lit [] = Eps"
| "Lit (c # cs) = Seq (Cls (Ch c)) (Lit cs)"

text \<open>
  The backtracking matcher: \<open>ends r s\<close> lists what is left of \<open>s\<close> after each way of
  matching \<open>r\<close> at its start, in the order the engine tries them (a greedy operator tries
  the longer match first; a later choice varies before an earlier one). The engine takes
  the first way that succeeds.
\<close>

fun star_ends :: "cclass \<Rightarrow> string \<Rightarrow> string list" where
  "star_ends k [] = [[]]"
| "star_ends k (c # cs) = (if cls k c then star_ends k cs @ [c # cs] else [c # cs])"

fun ends :: "regex \<Rightarrow> string \<Rightarrow> string list" where
  "ends Eps s = [s]"
| "ends (Cls k) s = (case s of [] \<Rightarrow> [] | c # cs \<Rightarrow> if cls k c then [cs] else [])"
| "ends (Seq a b) s = concat (map (ends b) (ends a s))"
| "ends (Alt a b) s = ends a s @ ends b s"
| "ends (Opt a) s = ends a s @ [s]"
| "ends (Star k) s = star_ends k s"

text \<open>
  \<open>re.search(r, s)\<close>: the leftmost position where \<open>r\<close> matches, and there the first
  match in the engine's order; the result is the matched text (\<open>group(0)\<close>), \<open>None\<close> when
  no position matches.
\<close>

fun re_search :: "regex \<Rightarrow> string \<Rightarrow> string option" where
  "re_search r [] = (case ends r [] of [] \<Rightarrow> None | rest # _ \<Rightarrow> Some [])"
| "re_search r (c # cs) =
     (case ends r (c # cs) of
        [] \<Rightarrow> re_search r cs
      | rest # _ \<Rightarrow> Some (take (length (c # cs) - length rest) (c # cs)))"

text \<open>The strings a pattern denotes, independently of the matcher.\<close>

fun lang :: "regex \<Rightarrow> string set" where
  "lang Eps = {[]}"
| "lang (Cls k) = {[c] | c. cls k c}"
| "lang (Seq a b) = {u @ v | u v. u \<in> lang a \<and> v \<in> lang b}"
| "lang (Alt a b) = lang a \<union> lang b"
| "lang (Opt a) = insert [] (lang a)"
| "lang (Star k) = {w. \<forall>c \<in> set w. cls k c}"

section \<open>The extractor (\<open>main.py\<close>)\<close>

definition symptoms :: "string list" where
  "symptoms =
    [''headache'', ''chest pain'', ''nausea'', ''dizziness'', ''fatigue'',
     ''fever'', ''breathlessness'', ''cough'', ''sore throat'', ''vomiting'',
     ''abdominal pain'', ''back pain'', ''joint pain'', ''muscle pain'',
     ''shortness of breath'', ''palpitations'', ''sweating'', ''chills'']"

definition medications :: "string list" where
  "medications =
    [''metformin'', ''aspirin'', ''paracetamol'', ''ibuprofen'', ''lisinopril'',
     ''amlodipine'', ''omeprazole'', ''levothyroxine'', ''atorvastatin'',
     ''losartan'', ''metoprolol'', ''albuterol'', ''insulin'', ''warfarin'',
     ''clopidogrel'', ''prednisone'', ''amoxicillin'', ''azithromycin'']"

text \<open>A dict keeps its insertion order, so \<open>.items()\<close> is this list of pairs.\<close>

definition time_patterns :: "(string \<times> string list) list" where
  "time_patterns =
    [(''morning'', [''morning'', ''am'', ''breakfast'']),
     (''afternoon'', [''afternoon'', ''lunch'', ''noon'']),
     (''evening'', [''evening'', ''dinner'']),
     (''night'', [''night'', ''bedtime'', ''pm''])]"

definition food_patterns :: "(string \<times> string list) list" where
  "food_patterns =
    [(''after food'', [''after food'', ''after eating'', ''after meal'', ''after breakfast'',
                       ''after lunch'', ''after dinner'']),
     (''before food'', [''before food'', ''before eating'', ''before meal'',
                        ''before breakfast'', ''before lunch'', ''before dinner'']),
     (''with food'', [''with food'', ''with meal'', ''with meals'', ''during meal'']),
     (''empty stomach'', [''empty stomach'', ''on empty stomach'', ''without food''])]"

definition frequency_markers :: "string list" where
  "frequency_markers =
    [''again'', ''twice'', ''three times'', ''multiple times'', ''every day'', ''daily'',
     ''since yesterday'']"

text \<open>\<open>for v in vocabulary: if v in text_lower: return v\<close>, then \<open>return None\<close>.\<close>

fun first_in :: "string list \<Rightarrow> string \<Rightarrow> string option" where
  "first_in [] t = None"
| "first_in (v # vs) t = (if str_in v t then Some v else first_in vs t)"

definition extract_symptom :: "string \<Rightarrow> string option" where
  "extract_symptom text = first_in symptoms (lower text)"

definition extract_medication :: "string \<Rightarrow> string option" where
  "extract_medication text = first_in medications (lower text)"

text \<open>
  \<open>for key, patterns in d.items(): for pattern in patterns: if pattern in text_lower:
  return key\<close>, then \<open>return None\<close> (or the sentinel, at the caller).
\<close>

fun any_in :: "string list \<Rightarrow> string \<Rightarrow> bool" where
  "any_in [] t = False"
| "any_in (p # ps) t = (str_in p t \<or> any_in ps t)"

fun first_key :: "(string \<times> string list) list \<Rightarrow> string \<Rightarrow> string option" where
  "first_key [] t = None"
| "first_key ((key, patterns) # rest) t =
     (if any_in patterns t then Some key else first_key rest t)"

text \<open>The four dose patterns, in the order of the list \<open>dose_patterns\<close>.\<close>

definition mg_pattern :: regex where
  "mg_pattern =
     Seq (Plus Digit) (Seq (Opt (Cls (Ch CHR ''.''))) (Seq (Star Digit)
       (Seq (Star Space) (Lit ''mg''))))"

definition tablet_pattern :: regex where
  "tablet_pattern =
     Seq (Plus Digit) (Seq (Star Space) (Seq (Lit ''tablet'') (Opt (Cls (Ch CHR ''s'')))))"

definition unit_pattern :: regex where
  "unit_pattern =
     Seq (Plus Digit) (Seq (Star Space) (Seq (Lit ''unit'') (Opt (Cls (Ch CHR ''s'')))))"

definition ml_pattern :: regex where
  "ml_pattern =
     Seq (Plus Digit) (Seq (Opt (Cls (Ch CHR ''.''))) (Seq (Star Digit)
       (Seq (Star Space) (Lit ''ml''))))"

definition dose_patterns :: "regex list" where
  "dose_patterns = [mg_pattern, tablet_pattern, unit_pattern, ml_pattern]"

fun first_search :: "regex list \<Rightarrow> string \<Rightarrow> string option" where
  "first_search [] t = None"
| "first_search (p # ps) t =
     (case re_search p t of Some m \<Rightarrow> Some m | None \<Rightarrow> first_search ps t)"

definition extract_dose :: "string \<Rightarrow> string option" where
  "extract_dose text = first_search dose_patterns (lower text)"

text \<open>The clock-time pattern \<open>(\d{1,2}):?(\d{2})?\s*(am|pm)\<close>.\<close>

definition time_regex :: regex where
  "time_regex =
     Seq (Rep12 (Cls Digit)) (Seq (Opt (Cls (Ch CHR '':''))) (Seq (Opt (Rep2 (Cls Digit)))
       (Seq (Star Space) (Alt (Lit ''am'') (Lit ''pm'')))))"

definition extract_time_of_day :: "string \<Rightarrow> string" where
  "extract_time_of_day text =
     (let text_lower = lower text
      in case re_search time_regex text_lower of
           Some m \<Rightarrow> m
         | None \<Rightarrow>
             (case first_key time_patterns text_lower of
                Some time_key \<Rightarrow> time_key
              | None \<Rightarrow> ''unspecified time''))"

definition extract_food_relation :: "string \<Rightarrow> string option" where
  "extract_food_relation text = first_key food_patterns (lower text)"

definition extract_frequency_marker :: "string \<Rightarrow> string option" where
  "extract_frequency_marker text = first_in frequency_markers (lower text)"

section \<open>Events and the session state (\<open>main.py\<close>)\<close>

text \<open>
  An event is a dict with a fixed set of keys. The seeded demo events have no
  \<open>raw_text\<close> key (\<open>None\<close> below), and a seeded medication has the dose \<open>None\<close>.
\<close>

record symptom_event =
  symptom :: string
  s_time_of_day :: string
  s_relation_to_food :: "string option"
  frequency_marker :: "string option"
  s_timestamp :: string
  s_raw_text :: "string option"

record medication_event =
  medication :: string
  dose :: "string option"
  m_time_of_day :: string
  m_relation_to_food :: "string option"
  route :: string
  m_timestamp :: string
  m_note :: string
  m_raw_text :: "string option"

text \<open>An entry \<open>{"type": ..., "data": event}\<close> of \<open>event_store\<close>.\<close>

datatype stored_event = StoredSymptom symptom_event | StoredMedication medication_event

datatype py_exception = AssertionError | OtherException string

text \<open>
  \<open>faiss.IndexFlatL2(d)\<close>: a flat list of vectors of dimension \<open>d\<close>. \<open>add\<close> of one
  row asserts that the row has the dimension of the index and appends it. The
  components of a vector are of any type \<open>'a\<close>.
\<close>

record 'a index =
  dim :: nat
  vectors :: "'a list list"

definition IndexFlatL2 :: "nat \<Rightarrow> 'a index" where
  "IndexFlatL2 n = \<lparr>dim = n, vectors = []\<rparr>"

definition faiss_add :: "'a index \<Rightarrow> 'a list \<Rightarrow> py_exception + 'a index" where
  "faiss_add idx v =
     (if length v = dim idx then Inr (idx\<lparr>vectors := vectors idx @ [v]\<rparr>)
      else Inl AssertionError)"

definition ntotal :: "'a index \<Rightarrow> nat" where
  "ntotal idx = length (vectors idx)"

record 'a system =
  patient_age :: int
  patient_gender :: string
  symptom_events :: "symptom_event list"
  medication_events :: "medication_event list"
  faiss_index :: "'a index"
  event_store :: "stored_event list"

text \<open>\<open>__init__\<close>: the seeded patient state, an empty index, an empty event store.\<close>

definition seeded_symptom_events :: "symptom_event list" where
  "seeded_symptom_events =
    [\<lparr>symptom = ''headache'', s_time_of_day = ''morning'',
      s_relation_to_food = Some ''after food'', frequency_marker = Some ''again'',
      s_timestamp = ''2026-01-08T09:30'', s_raw_text = None\<rparr>,
     \<lparr>symptom = ''chest pain'', s_time_of_day = ''night'',
      s_relation_to_food = Some ''after food'', frequency_marker = None,
      s_timestamp = ''2026-01-07T21:15'', s_raw_text = None\<rparr>]"

definition seeded_medication_events :: "medication_event list" where
  "seeded_medication_events =
    [\<lparr>medication = ''metformin'', dose = Some ''1000 mg'', m_time_of_day = ''morning'',
      m_relation_to_food = Some ''after food'', route = ''oral'',
      m_timestamp = ''2026-01-08T08:00'', m_note = ''patient reported intake'',
      m_raw_text = None\<rparr>,
     \<lparr>medication = ''lisinopril'', dose = None, m_time_of_day = ''night'',
      m_relation_to_food = Some ''before food'', route = ''oral'',
      m_timestamp = ''2026-01-07T19:30'', m_note = ''patient reported intake'',
      m_raw_text = None\<rparr>]"

definition embedding_dim :: nat where
  "embedding_dim = 768"

definition init_system :: "'a system" where
  "init_system =
    \<lparr>patient_age = 62, patient_gender = ''male'',
     symptom_events = seeded_symptom_events,
     medication_events = seeded_medication_events,
     faiss_index = IndexFlatL2 embedding_dim,
     event_store = []\<rparr>"

text \<open>
  What a call reads from outside the session: the clock (\<open>datetime.now().isoformat()\<close>)
  and the embedding model (\<open>_get_embedding\<close>), which returns a vector or raises.
\<close>

record 'a env =
  now :: string
  get_embedding :: "string \<Rightarrow> py_exception + 'a list"

text \<open>
  A printed line. \<open>Cross s\<close> is the line that starts with the ballot cross and a space,
  \<open>Check s\<close> the one that starts with the check mark and a space, followed by \<open>s\<close>.
\<close>

datatype line = Cross string | Check string | Plain string

definition symptom_miss :: "line list" where
  "symptom_miss =
    [Cross ''No recognized symptom found in text.'',
     Plain (''  Recognized symptoms: '' @ str_join '', '' (take 10 symptoms) @ ''...'')]"

definition medication_miss :: "line list" where
  "medication_miss =
    [Cross ''No recognized medication found in text.'',
     Plain (''  Recognized medications: '' @ str_join '', '' (take 10 medications) @ ''...'')]"

text \<open>
  \<open>record_symptom\<close> returns the session after the call, with either the exception that
  left the call or the lines printed. The statements run in the order of the source:
  the event is appended to the timeline, then the embedding is computed, then the
  vector is added to the index, then the event is appended to \<open>event_store\<close>.
\<close>

definition record_symptom ::
  "'a env \<Rightarrow> string \<Rightarrow> 'a system \<Rightarrow> 'a system \<times> (py_exception + line list)" where
  "record_symptom env txt st =
     (let sym = extract_symptom txt
      in if \<not> truthy sym then (st, Inr symptom_miss)
         else
           let time_of_day = extract_time_of_day txt;
               relation_to_food = extract_food_relation txt;
               freq = extract_frequency_marker txt;
               event = \<lparr>symptom = the sym, s_time_of_day = time_of_day,
                        s_relation_to_food = relation_to_food, frequency_marker = freq,
                        s_timestamp = now env, s_raw_text = Some txt\<rparr>;
               st1 = st\<lparr>symptom_events := symptom_events st @ [event]\<rparr>
           in case get_embedding env (''symptom '' @ the sym @ '' '' @ time_of_day) of
                Inl e \<Rightarrow> (st1, Inl e)
              | Inr embedding \<Rightarrow>
                  (case faiss_add (faiss_index st1) embedding of
                     Inl e \<Rightarrow> (st1, Inl e)
                   | Inr idx \<Rightarrow>
                       (st1\<lparr>faiss_index := idx,
                            event_store := event_store st1 @ [StoredSymptom event]\<rparr>,
                        Inr ([Check (''Symptom documented: '' @ the sym),
                              Plain (''  Time: '' @ time_of_day)]
                             @ (if truthy relation_to_food
                                then [Plain (''  Food relation: '' @ the relation_to_food)]
                                else [])
                             @ (if truthy freq
                                then [Plain (''  Frequency: '' @ the freq)]
                                else [])))))"

definition record_medication ::
  "'a env \<Rightarrow> string \<Rightarrow> 'a system \<Rightarrow> 'a system \<times> (py_exception + line list)" where
  "record_medication env txt st =
     (let med = extract_medication txt
      in if \<not> truthy med then (st, Inr medication_miss)
         else
           let ds = extract_dose txt;
               time_of_day = extract_time_of_day txt;
               relation_to_food = extract_food_relation txt;
               event = \<lparr>medication = the med,
                        dose = (if truthy ds then ds else Some ''dose not specified''),
                        m_time_of_day = time_of_day,
                        m_relation_to_food = relation_to_food, route = ''oral'',
                        m_timestamp = now env, m_note = ''patient reported intake'',
                        m_raw_text = Some txt\<rparr>;
               st1 = st\<lparr>medication_events := medication_events st @ [event]\<rparr>
           in case get_embedding env (''medication '' @ the med @ '' '' @ py_str ds) of
                Inl e \<Rightarrow> (st1, Inl e)
              | Inr embedding \<Rightarrow>
                  (case faiss_add (faiss_index st1) embedding of
                     Inl e \<Rightarrow> (st1, Inl e)
                   | Inr idx \<Rightarrow>
                       (st1\<lparr>faiss_index := idx,
                            event_store := event_store st1 @ [StoredMedication event]\<rparr>,
                        Inr ([Check (''Medication documented: '' @ the med),
                              Plain (''  Dose: '' @ (if truthy ds then the ds
                                                     else ''not specified'')),
                              Plain (''  Time: '' @ time_of_day)]
                             @ (if truthy relation_to_food
                                then [Plain (''  Food relation: '' @ the relation_to_food)]
                                else [])))))"

text \<open>
  \<open>show_timeline\<close>: one entry per symptom event, then one per medication event, sorted
  by the timestamp string with the stable \<open>list.sort\<close>. Strings compare by code point,
  a proper prefix first. The view is the placeholder or the sorted entries; how an
  entry is printed is not modelled.
\<close>

datatype event_type = SYMPTOM | MEDICATION

record entry =
  e_type :: event_type
  e_timestamp :: string
  description :: string
  details :: stored_event

definition symptom_entry :: "symptom_event \<Rightarrow> entry" where
  "symptom_entry event =
     \<lparr>e_type = SYMPTOM, e_timestamp = s_timestamp event,
      description = symptom event @ '' at '' @ s_time_of_day event,
      details = StoredSymptom event\<rparr>"

definition medication_entry :: "medication_event \<Rightarrow> entry" where
  "medication_entry event =
     \<lparr>e_type = MEDICATION, e_timestamp = m_timestamp event,
      description =
        medication event @ '' '' @ py_str (dose event) @ '' at '' @ m_time_of_day event,
      details = StoredMedication event\<rparr>"

definition all_events :: "'a system \<Rightarrow> entry list" where
  "all_events st =
     map symptom_entry (symptom_events st) @ map medication_entry (medication_events st)"

datatype timeline_view = NoEvents | Timeline "entry list"

definition global_timeline :: "'a system \<Rightarrow> entry list" where
  "global_timeline st = sort_key e_timestamp (all_events st)"

definition show_timeline :: "'a system \<Rightarrow> timeline_view" where
  "show_timeline st =
     (let sorted_events = global_timeline st
      in if sorted_events = [] then NoEvents else Timeline sorted_events)"

text \<open>
  \<open>symptom_frequency\<close> and \<open>medication_frequency\<close>: the events of the stream whose name,
  lower-cased, equals the lower-cased query; the view is the "no documented instances"
  message for the query, or the report over the matching events.
\<close>

datatype 'e frequency_view = NoInstances string | Report string "'e list"

definition symptom_frequency :: "'a system \<Rightarrow> string \<Rightarrow> symptom_event frequency_view" where
  "symptom_frequency st name =
     (let symptom_lower = lower name;
          matching_events =
            filter (\<lambda>event. lower (symptom event) = symptom_lower) (symptom_events st)
      in if matching_events = [] then NoInstances name else Report name matching_events)"

definition medication_frequency ::
  "'a system \<Rightarrow> string \<Rightarrow> medication_event frequency_view" where
  "medication_frequency st name =
     (let med_lower = lower name;
          matching_events =
            filter (\<lambda>event. lower (medication event) = med_lower) (medication_events st)
      in if matching_events = [] then NoInstances name else Report name matching_events)"

text \<open>
  One turn of the loop of \<open>run\<close>, after the command line is parsed: the session after
  the command. An exception of a recording is caught by the loop, which goes on with
  the session as the call left it; every other command only reads the session.
\<close>

datatype command =
    Note string
  | Med string
  | ShowTimeline
  | Frequency string
  | MedFrequency string
  | NurseNote
  | MedNote
  | Help
  | Unknown

fun exec :: "'a env \<Rightarrow> command \<Rightarrow> 'a system \<Rightarrow> 'a system" where
  "exec env (Note txt) st = fst (record_symptom env txt st)"
| "exec env (Med txt) st = fst (record_medication env txt st)"
| "exec env ShowTimeline st = st"
| "exec env (Frequency name) st = st"
| "exec env (MedFrequency name) st = st"
| "exec env NurseNote st = st"
| "exec env MedNote st = st"
| "exec env Help st = st"
| "exec env Unknown st = st"

fun run_all :: "('a env \<times> command) list \<Rightarrow> 'a system \<Rightarrow> 'a system" where
  "run_all [] st = st"
| "run_all ((env, cmd) # rest) st = run_all rest (exec env cmd st)"

text \<open>
  A recording is documented when it prints its check-mark line, which it does after
  the vector and the event reference are stored. \<open>recognized\<close> says that the extractor
  found a name, so that the event was built and appended to the timeline.
\<close>

fun documented :: "py_exception + line list \<Rightarrow> bool" where
  "documented (Inr (Check s # ls)) = True"
| "documented r = False"

fun records :: "'a env \<Rightarrow> command \<Rightarrow> 'a system \<Rightarrow> bool" where
  "records env (Note txt) st = documented (snd (record_symptom env txt st))"
| "records env (Med txt) st = documented (snd (record_medication env txt st))"
| "records env cmd st = False"

fun recognized :: "command \<Rightarrow> bool" where
  "recognized (Note txt) = truthy (extract_symptom txt)"
| "recognized (Med txt) = truthy (extract_medication txt)"
| "recognized cmd = False"

fun count_recorded :: "('a env \<times> command) list \<Rightarrow> 'a system \<Rightarrow> nat" where
  "count_recorded [] st = 0"
| "count_recorded ((env, cmd) # rest) st =
     (if records env cmd st then 1 else 0) + count_recorded rest (exec env cmd st)"

definition count_events :: "'a system \<Rightarrow> nat" where
  "count_events st = length (symptom_events st) + length (medication_events st)"

text \<open>
  Two environments for concrete runs: one whose embedding model returns a vector of
  the dimension of the index, one whose embedding model raises.
\<close>

definition demo_env :: "nat env" where
  "demo_env =
     \<lparr>now = ''2026-01-09T10:00:00'', get_embedding = (\<lambda>s. Inr (replicate 768 0))\<rparr>"

definition failing_env :: "nat env" where
  "failing_env =
     \<lparr>now = ''2026-01-09T10:05:00'',
      get_embedding = (\<lambda>s. Inl (OtherException ''embedding failed''))\<rparr>"

text \<open>The initial session, and a session with no event, for concrete runs.\<close>

abbreviation demo_init :: "nat system" where
  "demo_init \<equiv> init_system"

abbreviation demo_empty :: "nat system" where
  "demo_empty \<equiv> init_system\<lparr>symptom_events := [], medication_events := []\<rparr>"

section \<open>The note generator (\<open>process.py\<close>)\<close>

text \<open>
  \<open>_generate_deterministic\<close> is the generation service: a function from the prompt to
  the generated text, or an exception. Each operation returns its result together with
  the prompts it sent to the service, in order.
\<close>

type_synonym generator = "string \<Rightarrow> py_exception + string"

definition symptom_clause :: "symptom_event \<Rightarrow> string" where
  "symptom_clause event =
     (let food = s_relation_to_food event; freq = frequency_marker event
      in symptom event @ '' at '' @ s_time_of_day event
         @ (if truthy food \<and> food \<noteq> Some ''no food relation noted''
            then '' '' @ the food else [])
         @ (if truthy freq then '' ('' @ the freq @ '')'' else []))"

definition generate_nursing_note ::
  "generator \<Rightarrow> symptom_event list \<Rightarrow> (py_exception + string) \<times> string list" where
  "generate_nursing_note gen events =
     (if events = [] then (Inr ''No symptoms documented during this period.'', [])
      else
        let prompt =
              ''Write a nursing documentation note based on these reported symptoms. ''
              @ ''Do not diagnose or interpret. Only document what was reported. ''
              @ ''Use professional nursing language. ''
              @ ''Symptoms: '' @ str_join '', '' (map symptom_clause events) @ ''. ''
              @ ''Documentation note:''
        in (case gen prompt of
              Inl e \<Rightarrow> Inl e
            | Inr generated \<Rightarrow>
                Inr (''=== SYMPTOM DOCUMENTATION ==='' @ [CHR 0x0A] @ generated
                     @ [CHR 0x0A, CHR 0x0A]
                     @ ''Note: This is documentation only. No clinical interpretation provided.''),
            [prompt]))"

definition medication_clause :: "medication_event \<Rightarrow> string" where
  "medication_clause event =
     (let food = m_relation_to_food event
      in medication event @ '' '' @ py_str (dose event) @ '' via '' @ route event
         @ '' at '' @ m_time_of_day event
         @ (if truthy food then '' '' @ the food else []))"

definition generate_medication_note ::
  "generator \<Rightarrow> medication_event list \<Rightarrow> (py_exception + string) \<times> string list" where
  "generate_medication_note gen events =
     (if events = []
      then (Inr ''No medications documented during this period.'', [])
      else
        let prompt =
              ''Write a medication administration record note. ''
              @ ''Do not provide dosage advice or recommendations. ''
              @ ''Only document what was taken as reported. ''
              @ ''Use professional nursing language. ''
              @ ''Medications: '' @ str_join '', '' (map medication_clause events)
              @ ''. '' @ ''MAR note:''
        in (case gen prompt of
              Inl e \<Rightarrow> Inl e
            | Inr generated \<Rightarrow>
                Inr (''=== MEDICATION ADMINISTRATION RECORD ==='' @ [CHR 0x0A] @ generated
                     @ [CHR 0x0A, CHR 0x0A]
                     @ ''Note: Patient-reported intake. Documentation only.''),
            [prompt]))"

section \<open>Properties of strings and patterns\<close>

lemma startswith_prefix: "startswith s p = prefix p s"
  by (induction s p rule: startswith.induct) auto

lemma str_in_sublist: "str_in p s = sublist p s"
  by (induction s) (simp_all add: startswith_prefix sublist_Cons_right)

text \<open>The matcher finds exactly the splits of the text whose first part the pattern denotes.\<close>

lemma star_ends_set:
  "set (star_ends k s) = {t. \<exists>m. s = m @ t \<and> (\<forall>c \<in> set m. cls k c)}"
proof (induction s)
  case Nil
  then show ?case by auto
next
  case (Cons c cs)
  show ?case
  proof (cases "cls k c")
    case True
    have "{t. \<exists>m. c # cs = m @ t \<and> (\<forall>x \<in> set m. cls k x)}
          = insert (c # cs) {t. \<exists>m. cs = m @ t \<and> (\<forall>x \<in> set m. cls k x)}"
      (is "?L = ?R")
    proof
      show "?L \<subseteq> ?R"
      proof
        fix t assume "t \<in> ?L"
        then obtain m where m: "c # cs = m @ t" "\<forall>x \<in> set m. cls k x" by blast
        show "t \<in> ?R"
        proof (cases m)
          case Nil
          with m show ?thesis by simp
        next
          case (Cons a m')
          with m have "cs = m' @ t" "\<forall>x \<in> set m'. cls k x" by simp_all
          then show ?thesis by blast
        qed
      qed
      show "?R \<subseteq> ?L"
      proof
        fix t assume "t \<in> ?R"
        then consider "t = c # cs" | m where "cs = m @ t" "\<forall>x \<in> set m. cls k x" by blast
        then show "t \<in> ?L"
        proof cases
          case 1
          then have "c # cs = [] @ t \<and> (\<forall>x \<in> set []. cls k x)" by simp
          then show ?thesis by blast
        next
          case 2
          with True have "c # cs = (c # m) @ t \<and> (\<forall>x \<in> set (c # m). cls k x)" by simp
          then show ?thesis by blast
        qed
      qed
    qed
    with True Cons show ?thesis by simp
  next
    case False
    have "{t. \<exists>m. c # cs = m @ t \<and> (\<forall>x \<in> set m. cls k x)} = {c # cs}" (is "?L = _")
    proof
      show "?L \<subseteq> {c # cs}"
      proof
        fix t assume "t \<in> ?L"
        then obtain m where m: "c # cs = m @ t" "\<forall>x \<in> set m. cls k x" by blast
        with False have "m = []" by (cases m) auto
        with m show "t \<in> {c # cs}" by simp
      qed
      have "c # cs = [] @ (c # cs) \<and> (\<forall>x \<in> set []. cls k x)" by simp
      then show "{c # cs} \<subseteq> ?L" by blast
    qed
    with False show ?thesis by simp
  qed
qed

lemma ends_set: "set (ends r s) = {t. \<exists>m \<in> lang r. s = m @ t}"
proof (induction r arbitrary: s)
  case Eps
  show ?case by auto
next
  case (Cls k)
  show ?case by (cases s) auto
next
  case (Seq a b)
  have "set (ends (Seq a b) s) = (\<Union>t \<in> set (ends a s). set (ends b t))" by simp
  also have "\<dots> = {t. \<exists>u \<in> lang a. \<exists>v \<in> lang b. s = (u @ v) @ t}"
    unfolding Seq.IH by auto
  also have "\<dots> = {t. \<exists>m \<in> lang (Seq a b). s = m @ t}" by (auto; blast)
  finally show ?case .
next
  case (Alt a b)
  then show ?case by auto
next
  case (Opt a)
  then show ?case by auto
next
  case (Star k)
  show ?case by (auto simp: star_ends_set)
qed

lemma ends_Nil_iff: "ends r s = [] \<longleftrightarrow> (\<forall>m \<in> lang r. \<not> prefix m s)"
proof -
  have "ends r s = [] \<longleftrightarrow> set (ends r s) = {}" by simp
  also have "\<dots> \<longleftrightarrow> (\<forall>m \<in> lang r. \<not> prefix m s)"
    unfolding ends_set by (auto simp: prefix_def)
  finally show ?thesis .
qed

lemma ends_hd:
  assumes "ends r s = t # ts"
  shows "take (length s - length t) s \<in> lang r \<and> prefix (take (length s - length t) s) s"
proof -
  from assms have "t \<in> set (ends r s)" by simp
  then obtain m where "m \<in> lang r" "s = m @ t" unfolding ends_set by blast
  then show ?thesis by (simp add: take_is_prefix)
qed

lemma re_search_None: "re_search r s = None \<longleftrightarrow> (\<forall>m \<in> lang r. \<not> sublist m s)"
proof (induction s)
  case Nil
  show ?case
  proof (cases "ends r []")
    case Nil
    then have "\<forall>m \<in> lang r. \<not> prefix m []" by (simp only: ends_Nil_iff)
    with Nil show ?thesis by simp
  next
    case (Cons t ts)
    from ends_hd [OF this] show ?thesis using Cons by auto
  qed
next
  case (Cons c cs)
  show ?case
  proof (cases "ends r (c # cs)")
    case Nil
    then have "\<forall>m \<in> lang r. \<not> prefix m (c # cs)" by (simp add: ends_Nil_iff)
    with Nil Cons show ?thesis by (auto simp: sublist_Cons_right)
  next
    case (Cons t ts)
    from ends_hd [OF this] show ?thesis using Cons by (auto simp: sublist_Cons_right)
  qed
qed

text \<open>
  A match found is in the language of the pattern, and it is the leftmost: no match
  starts before it.
\<close>

lemma re_search_Some:
  "re_search r s = Some m \<Longrightarrow>
     m \<in> lang r \<and>
     (\<exists>pre post. s = pre @ m @ post \<and>
        (\<forall>pre' m' post'. s = pre' @ m' @ post' \<and> m' \<in> lang r \<longrightarrow> length pre \<le> length pre'))"
proof (induction s)
  case Nil
  then have "ends r [] \<noteq> []" "m = []" by (auto split: list.splits)
  then obtain t ts where "ends r [] = t # ts" by (cases "ends r []") auto
  from ends_hd [OF this] \<open>m = []\<close> show ?case by auto
next
  case (Cons c cs)
  show ?case
  proof (cases "ends r (c # cs)")
    case Nil
    with Cons.prems have "re_search r cs = Some m" by simp
    from Cons.IH [OF this] obtain pre post where
      m: "m \<in> lang r" and s: "cs = pre @ m @ post"
      and least: "\<forall>pre' m' post'. cs = pre' @ m' @ post' \<and> m' \<in> lang r \<longrightarrow> length pre \<le> length pre'"
      by blast
    have "\<forall>pre' m' post'. c # cs = pre' @ m' @ post' \<and> m' \<in> lang r \<longrightarrow> length (c # pre) \<le> length pre'"
    proof (intro allI impI)
      fix pre' m' post' assume a: "c # cs = pre' @ m' @ post' \<and> m' \<in> lang r"
      show "length (c # pre) \<le> length pre'"
      proof (cases pre')
        case Nil
        with a have "prefix m' (c # cs)" by (auto simp: prefix_def)
        with a Nil \<open>ends r (c # cs) = []\<close> show ?thesis by (auto simp: ends_Nil_iff)
      next
        case (Cons x pre'')
        with a have "cs = pre'' @ m' @ post'" by simp
        with a least have "length pre \<le> length pre''" by blast
        with Cons show ?thesis by simp
      qed
    qed
    moreover from s have "c # cs = (c # pre) @ m @ post" by simp
    ultimately show ?thesis using m by blast
  next
    case (Cons t ts)
    with Cons.prems have meq: "m = take (length (c # cs) - length t) (c # cs)" by simp
    from ends_hd [OF Cons] meq have "m \<in> lang r" "prefix m (c # cs)" by simp_all
    then obtain post where "c # cs = [] @ m @ post" by (auto simp: prefix_def)
    then show ?thesis using \<open>m \<in> lang r\<close> by (metis le0 list.size(3))
  qed
qed

text \<open>The facts that evaluate \<open>lower\<close> on a literal.\<close>

lemmas lower_eval = lower_def lower_char_def isupper_def

text \<open>The vocabulary scans, in terms of the substring relation.\<close>

lemma first_in_None: "first_in vs t = None \<longleftrightarrow> (\<forall>v \<in> set vs. \<not> sublist v t)"
  by (induction vs) (simp_all add: str_in_sublist)

lemma first_in_index:
  "i < length vs \<Longrightarrow> sublist (vs ! i) t \<Longrightarrow> (\<forall>j < i. \<not> sublist (vs ! j) t)
     \<Longrightarrow> first_in vs t = Some (vs ! i)"
proof (induction vs arbitrary: i)
  case Nil
  then show ?case by simp
next
  case (Cons v vs)
  show ?case
  proof (cases i)
    case 0
    with Cons.prems show ?thesis by (simp add: str_in_sublist)
  next
    case (Suc k)
    with Cons.prems have "\<not> sublist v t" by auto
    moreover from Suc Cons.prems have "first_in vs t = Some (vs ! k)"
      by (intro Cons.IH) auto
    ultimately show ?thesis using Suc by (simp add: str_in_sublist)
  qed
qed

lemma first_in_Some:
  "first_in vs t = Some v \<Longrightarrow>
     \<exists>i < length vs. vs ! i = v \<and> sublist v t \<and> (\<forall>j < i. \<not> sublist (vs ! j) t)"
proof (induction vs)
  case Nil
  then show ?case by simp
next
  case (Cons u vs)
  show ?case
  proof (cases "str_in u t")
    case True
    with Cons.prems have "u = v" by simp
    with True have "(u # vs) ! 0 = v \<and> sublist v t \<and> (\<forall>j < 0. \<not> sublist ((u # vs) ! j) t)"
      by (simp add: str_in_sublist)
    then show ?thesis by blast
  next
    case False
    with Cons obtain i where i: "i < length vs" "vs ! i = v" "sublist v t"
      "\<forall>j < i. \<not> sublist (vs ! j) t" by auto
    have "\<forall>j < Suc i. \<not> sublist ((u # vs) ! j) t"
    proof (intro allI impI)
      fix j assume "j < Suc i"
      with i False show "\<not> sublist ((u # vs) ! j) t"
        by (cases j) (auto simp: str_in_sublist)
    qed
    with i have "Suc i < length (u # vs) \<and> (u # vs) ! Suc i = v \<and> sublist v t
       \<and> (\<forall>j < Suc i. \<not> sublist ((u # vs) ! j) t)" by simp
    then show ?thesis by blast
  qed
qed

lemma any_in_iff: "any_in ps t \<longleftrightarrow> (\<exists>p \<in> set ps. sublist p t)"
  by (induction ps) (simp_all add: str_in_sublist)

section \<open>Claims about the extractor\<close>

text \<open>
  C3 (as amended). \<open>extract_symptom\<close> lower-cases the text and returns the first entry
  of the vocabulary, in list order, that occurs in it as a substring, wherever the
  entries stand in the text; it returns \<open>None\<close> exactly when no entry occurs. For a
  text that has both "chest pain" and "back pain" and does not have "headache", the
  only entry before "chest pain", the result is "chest pain".
\<close>

theorem extract_symptom_vocabulary_order:
  "(extract_symptom txt = None \<longleftrightarrow> (\<forall>v \<in> set symptoms. \<not> sublist v (lower txt)))
   \<and> (\<forall>v. extract_symptom txt = Some v \<longleftrightarrow>
          (\<exists>i < length symptoms. symptoms ! i = v \<and> sublist v (lower txt)
             \<and> (\<forall>j < i. \<not> sublist (symptoms ! j) (lower txt))))
   \<and> (sublist ''chest pain'' (lower txt) \<and> sublist ''back pain'' (lower txt)
        \<and> \<not> sublist ''headache'' (lower txt)
      \<longrightarrow> extract_symptom txt = Some ''chest pain'')"
proof (intro conjI allI impI)
  show "extract_symptom txt = None \<longleftrightarrow> (\<forall>v \<in> set symptoms. \<not> sublist v (lower txt))"
    by (simp only: extract_symptom_def first_in_None)
next
  fix v
  show "extract_symptom txt = Some v \<longleftrightarrow>
          (\<exists>i < length symptoms. symptoms ! i = v \<and> sublist v (lower txt)
             \<and> (\<forall>j < i. \<not> sublist (symptoms ! j) (lower txt)))"
    unfolding extract_symptom_def
    using first_in_Some [of symptoms "lower txt" v] first_in_index [of _ symptoms "lower txt"]
    by blast
next
  assume a: "sublist ''chest pain'' (lower txt) \<and> sublist ''back pain'' (lower txt)
        \<and> \<not> sublist ''headache'' (lower txt)"
  then show "extract_symptom txt = Some ''chest pain''"
    by (simp add: extract_symptom_def symptoms_def str_in_sublist)
qed

text \<open>The amended claim at a text with "back pain" before "chest pain", in mixed case.\<close>

theorem extract_symptom_vocabulary_order_witness:
  "sublist ''chest pain'' (lower ''Back pain, then CHEST PAIN'')
   \<and> sublist ''back pain'' (lower ''Back pain, then CHEST PAIN'')
   \<and> \<not> sublist ''headache'' (lower ''Back pain, then CHEST PAIN'')
   \<and> extract_symptom ''Back pain, then CHEST PAIN'' = Some ''chest pain''"
proof -
  have h: "sublist ''chest pain'' (lower ''Back pain, then CHEST PAIN'')
     \<and> sublist ''back pain'' (lower ''Back pain, then CHEST PAIN'')
     \<and> \<not> sublist ''headache'' (lower ''Back pain, then CHEST PAIN'')"
    by (simp add: str_in_sublist [symmetric] lower_eval)
  with extract_symptom_vocabulary_order [of "''Back pain, then CHEST PAIN''"]
  show ?thesis by blast
qed

text \<open>
  The claim as written fails where the text also has "headache": both entries occur,
  and the result is "headache".
\<close>

theorem extract_symptom_chest_pain_counterexample:
  "sublist ''chest pain'' (lower ''headache, chest pain and back pain'')
   \<and> sublist ''back pain'' (lower ''headache, chest pain and back pain'')
   \<and> extract_symptom ''headache, chest pain and back pain'' = Some ''headache''
   \<and> extract_symptom ''headache, chest pain and back pain'' \<noteq> Some ''chest pain''"
  by (simp add: str_in_sublist [symmetric] lower_eval extract_symptom_def symptoms_def)

text \<open>The facts that unfold the patterns of the extractor.\<close>

lemmas pattern_eval = time_regex_def mg_pattern_def tablet_pattern_def unit_pattern_def
  ml_pattern_def dose_patterns_def Plus_def Rep12_def Rep2_def whitespace_def

text \<open>The scan of the time-of-day keywords, category by category.\<close>

lemma first_key_time_patterns:
  "first_key time_patterns t =
     (if \<exists>k \<in> set [''morning'', ''am'', ''breakfast'']. sublist k t then Some ''morning''
      else if \<exists>k \<in> set [''afternoon'', ''lunch'', ''noon'']. sublist k t then Some ''afternoon''
      else if \<exists>k \<in> set [''evening'', ''dinner'']. sublist k t then Some ''evening''
      else if \<exists>k \<in> set [''night'', ''bedtime'', ''pm'']. sublist k t then Some ''night''
      else None)"
  unfolding time_patterns_def first_key.simps any_in_iff ..

lemma extract_time_of_day_cases:
  "extract_time_of_day txt =
     (case re_search time_regex (lower txt) of
        Some m \<Rightarrow> m
      | None \<Rightarrow>
          if \<exists>k \<in> set [''morning'', ''am'', ''breakfast'']. sublist k (lower txt)
          then ''morning''
          else if \<exists>k \<in> set [''afternoon'', ''lunch'', ''noon'']. sublist k (lower txt)
          then ''afternoon''
          else if \<exists>k \<in> set [''evening'', ''dinner'']. sublist k (lower txt)
          then ''evening''
          else if \<exists>k \<in> set [''night'', ''bedtime'', ''pm'']. sublist k (lower txt)
          then ''night''
          else ''unspecified time'')"
proof -
  define t where "t = lower txt"
  define A where "A \<longleftrightarrow> (\<exists>k \<in> set [''morning'', ''am'', ''breakfast'']. sublist k t)"
  define B where "B \<longleftrightarrow> (\<exists>k \<in> set [''afternoon'', ''lunch'', ''noon'']. sublist k t)"
  define C where "C \<longleftrightarrow> (\<exists>k \<in> set [''evening'', ''dinner'']. sublist k t)"
  define D where "D \<longleftrightarrow> (\<exists>k \<in> set [''night'', ''bedtime'', ''pm'']. sublist k t)"
  have fk: "first_key time_patterns t =
      (if A then Some ''morning'' else if B then Some ''afternoon''
       else if C then Some ''evening'' else if D then Some ''night'' else None)"
    unfolding A_def B_def C_def D_def by (rule first_key_time_patterns)
  have "extract_time_of_day txt =
     (case re_search time_regex t of
        Some m \<Rightarrow> m
      | None \<Rightarrow> if A then ''morning'' else if B then ''afternoon''
          else if C then ''evening'' else if D then ''night'' else ''unspecified time'')"
    unfolding extract_time_of_day_def Let_def t_def [symmetric] fk
    by (cases "re_search time_regex t") (simp_all only: option.case if_distrib [of "case_option _ _"] split: if_split)
  then show ?thesis unfolding A_def B_def C_def D_def t_def .
qed

text \<open>
  C4 (as amended). \<open>extract_time_of_day\<close> searches the lower-cased text for the clock-time pattern
  and, when it matches, returns the matched text as it stands in the lower-cased
  text: a substring of it that the pattern denotes. The pattern fails exactly when no
  substring of the lower-cased text is denoted by it; then the result is the first of
  morning, afternoon, evening and night one of whose keywords occurs in the
  lower-cased text, and "unspecified time" when none does.
\<close>

theorem extract_time_of_day_order:
  "extract_time_of_day txt =
     (case re_search time_regex (lower txt) of
        Some m \<Rightarrow> m
      | None \<Rightarrow>
          if \<exists>k \<in> set [''morning'', ''am'', ''breakfast'']. sublist k (lower txt)
          then ''morning''
          else if \<exists>k \<in> set [''afternoon'', ''lunch'', ''noon'']. sublist k (lower txt)
          then ''afternoon''
          else if \<exists>k \<in> set [''evening'', ''dinner'']. sublist k (lower txt)
          then ''evening''
          else if \<exists>k \<in> set [''night'', ''bedtime'', ''pm'']. sublist k (lower txt)
          then ''night''
          else ''unspecified time'')
   \<and> (\<forall>m. re_search time_regex (lower txt) = Some m \<longrightarrow>
          m \<in> lang time_regex \<and> sublist m (lower txt))
   \<and> (re_search time_regex (lower txt) = None \<longleftrightarrow>
          (\<forall>m \<in> lang time_regex. \<not> sublist m (lower txt)))"
proof (intro conjI allI impI)
  fix m assume "re_search time_regex (lower txt) = Some m"
  from re_search_Some [OF this] obtain pre post
    where "m \<in> lang time_regex" and "lower txt = pre @ m @ post" by blast
  then show "m \<in> lang time_regex" and "sublist m (lower txt)"
    unfolding sublist_def by blast+
qed (rule extract_time_of_day_cases, rule re_search_None)

text \<open>
  The amended claim at a text with a clock time in upper case and a keyword of the
  evening category.
\<close>

theorem extract_time_of_day_order_witness:
  "re_search time_regex (lower ''Took it at 9:30 PM after dinner'') = Some ''9:30 pm''
   \<and> extract_time_of_day ''Took it at 9:30 PM after dinner'' = ''9:30 pm''
   \<and> ''9:30 pm'' \<in> lang time_regex
   \<and> sublist ''9:30 pm'' (lower ''Took it at 9:30 PM after dinner'')"
proof -
  have "re_search time_regex (lower ''Took it at 9:30 PM after dinner'') = Some ''9:30 pm''"
    by (simp add: lower_eval pattern_eval)
  with extract_time_of_day_order [of "''Took it at 9:30 PM after dinner''"]
  show ?thesis by simp
qed

text \<open>
  The claim as written fails where the clock time of the text has an upper-case
  letter: the result is the match in the lower-cased text, which is not a substring of
  the text itself.
\<close>

theorem clock_time_not_verbatim_counterexample:
  "extract_time_of_day ''Took it at 9:30 PM after dinner'' = ''9:30 pm''
   \<and> \<not> sublist ''9:30 pm'' ''Took it at 9:30 PM after dinner''"
proof (rule conjI)
  have "re_search time_regex (lower ''Took it at 9:30 PM after dinner'') = Some ''9:30 pm''"
    by (simp add: lower_eval pattern_eval)
  then show "extract_time_of_day ''Took it at 9:30 PM after dinner'' = ''9:30 pm''"
    by (simp add: extract_time_of_day_def)
  show "\<not> sublist ''9:30 pm'' ''Took it at 9:30 PM after dinner''"
    by (simp add: str_in_sublist [symmetric])
qed

text \<open>
  C10. When no substring of the lower-cased text is a clock time and the lower-cased
  text has the two letters "am" anywhere, \<open>extract_time_of_day\<close> returns "morning",
  whatever else the text has.
\<close>

theorem am_substring_means_morning:
  assumes "\<forall>m \<in> lang time_regex. \<not> sublist m (lower txt)"
    and "sublist ''am'' (lower txt)"
  shows "extract_time_of_day txt = ''morning''"
proof -
  from assms(1) have "re_search time_regex (lower txt) = None"
    by (simp only: re_search_None)
  moreover from assms(2) have "first_key time_patterns (lower txt) = Some ''morning''"
    by (simp add: first_key_time_patterns)
  ultimately show ?thesis by (simp add: extract_time_of_day_def)
qed

text \<open>
  C10 at "took paracetamol tonight": "am" occurs inside "paracetamol", "night" inside
  "tonight", there is no clock time, and the result is "morning".
\<close>

theorem am_substring_means_morning_witness:
  "sublist ''am'' (lower ''took paracetamol tonight'')
   \<and> sublist ''night'' (lower ''took paracetamol tonight'')
   \<and> re_search time_regex (lower ''took paracetamol tonight'') = None
   \<and> extract_time_of_day ''took paracetamol tonight'' = ''morning''"
proof -
  have none: "re_search time_regex (lower ''took paracetamol tonight'') = None"
    by (simp add: lower_eval pattern_eval)
  then have h1: "\<forall>m \<in> lang time_regex. \<not> sublist m (lower ''took paracetamol tonight'')"
    by (simp only: re_search_None)
  have h2: "sublist ''am'' (lower ''took paracetamol tonight'')"
    by (simp add: str_in_sublist [symmetric] lower_eval)
  have h3: "sublist ''night'' (lower ''took paracetamol tonight'')"
    by (simp add: str_in_sublist [symmetric] lower_eval)
  from am_substring_means_morning [OF h1 h2] none h2 h3 show ?thesis by simp
qed

text \<open>
  C9. For "Gave metformin 1000mg in morning" the medication is "metformin", the
  milligram pattern (the first of the dose patterns) matches "1000mg", which is the
  dose, and the time of day is "morning".
\<close>

theorem metformin_1000mg_morning:
  "extract_medication ''Gave metformin 1000mg in morning'' = Some ''metformin''
   \<and> re_search mg_pattern (lower ''Gave metformin 1000mg in morning'') = Some ''1000mg''
   \<and> extract_dose ''Gave metformin 1000mg in morning'' = Some ''1000mg''
   \<and> extract_time_of_day ''Gave metformin 1000mg in morning'' = ''morning''"
proof (intro conjI)
  show "extract_medication ''Gave metformin 1000mg in morning'' = Some ''metformin''"
    by (simp add: extract_medication_def medications_def lower_eval)
  show mg: "re_search mg_pattern (lower ''Gave metformin 1000mg in morning'') = Some ''1000mg''"
    by (simp add: lower_eval pattern_eval)
  then show "extract_dose ''Gave metformin 1000mg in morning'' = Some ''1000mg''"
    by (simp add: extract_dose_def dose_patterns_def)
  show "extract_time_of_day ''Gave metformin 1000mg in morning'' = ''morning''"
    by (simp add: extract_time_of_day_def time_patterns_def lower_eval pattern_eval)
qed

section \<open>Claims about recording\<close>

text \<open>A name the extractor returns is a vocabulary entry, so it is not empty.\<close>

lemma first_in_mem: "first_in vs t = Some v \<Longrightarrow> v \<in> set vs"
  by (induction vs) (auto split: if_splits)

lemma truthy_extract_symptom: "truthy (extract_symptom txt) \<longleftrightarrow> extract_symptom txt \<noteq> None"
proof (cases "extract_symptom txt")
  case None
  then show ?thesis by simp
next
  case (Some v)
  then have "v \<in> set symptoms" by (auto simp: extract_symptom_def dest: first_in_mem)
  then have "v \<noteq> []" by (auto simp: symptoms_def)
  with Some show ?thesis by simp
qed

lemma truthy_extract_medication:
  "truthy (extract_medication txt) \<longleftrightarrow> extract_medication txt \<noteq> None"
proof (cases "extract_medication txt")
  case None
  then show ?thesis by simp
next
  case (Some v)
  then have "v \<in> set medications" by (auto simp: extract_medication_def dest: first_in_mem)
  then have "v \<noteq> []" by (auto simp: medications_def)
  with Some show ?thesis by simp
qed

text \<open>The three ways a recording ends.\<close>

lemma record_symptom_cases:
  obtains (miss) "\<not> truthy (extract_symptom txt)"
      and "record_symptom env txt st = (st, Inr symptom_miss)"
  | (raised) e event where "truthy (extract_symptom txt)"
      and "symptom event = the (extract_symptom txt)"
      and "s_timestamp event = now env" and "s_raw_text event = Some txt"
      and "record_symptom env txt st =
             (st\<lparr>symptom_events := symptom_events st @ [event]\<rparr>, Inl e)"
  | (stored) event v s out where "truthy (extract_symptom txt)"
      and "symptom event = the (extract_symptom txt)"
      and "s_timestamp event = now env" and "s_raw_text event = Some txt"
      and "length v = dim (faiss_index st)"
      and "record_symptom env txt st =
             (st\<lparr>symptom_events := symptom_events st @ [event],
                 faiss_index := (faiss_index st)\<lparr>vectors := vectors (faiss_index st) @ [v]\<rparr>,
                 event_store := event_store st @ [StoredSymptom event]\<rparr>,
              Inr (Check s # out))"
proof (cases "truthy (extract_symptom txt)")
  case False
  then have "record_symptom env txt st = (st, Inr symptom_miss)"
    by (simp add: record_symptom_def)
  with False show ?thesis by (rule miss)
next
  case True
  define event where "event = \<lparr>symptom = the (extract_symptom txt),
      s_time_of_day = extract_time_of_day txt,
      s_relation_to_food = extract_food_relation txt,
      frequency_marker = extract_frequency_marker txt,
      s_timestamp = now env, s_raw_text = Some txt\<rparr>"
  have ev: "symptom event = the (extract_symptom txt)" "s_timestamp event = now env"
    "s_raw_text event = Some txt" by (simp_all add: event_def)
  show ?thesis
  proof (cases "get_embedding env
      (''symptom '' @ the (extract_symptom txt) @ '' '' @ extract_time_of_day txt)")
    case (Inl e)
    with True have "record_symptom env txt st =
        (st\<lparr>symptom_events := symptom_events st @ [event]\<rparr>, Inl e)"
      by (simp add: record_symptom_def Let_def event_def)
    with True ev show ?thesis by (rule raised)
  next
    case (Inr v)
    show ?thesis
    proof (cases "length v = dim (faiss_index st)")
      case False
      with True Inr have "record_symptom env txt st =
          (st\<lparr>symptom_events := symptom_events st @ [event]\<rparr>, Inl AssertionError)"
        by (simp add: record_symptom_def Let_def event_def faiss_add_def)
      with True ev show ?thesis by (rule raised)
    next
      case len: True
      with True Inr obtain s out where "record_symptom env txt st =
             (st\<lparr>symptom_events := symptom_events st @ [event],
                 faiss_index := (faiss_index st)\<lparr>vectors := vectors (faiss_index st) @ [v]\<rparr>,
                 event_store := event_store st @ [StoredSymptom event]\<rparr>,
              Inr (Check s # out))"
        by (simp add: record_symptom_def Let_def event_def faiss_add_def)
      with True ev len show ?thesis by (rule stored)
    qed
  qed
qed

lemma record_medication_cases:
  obtains (miss) "\<not> truthy (extract_medication txt)"
      and "record_medication env txt st = (st, Inr medication_miss)"
  | (raised) e event where "truthy (extract_medication txt)"
      and "medication event = the (extract_medication txt)"
      and "m_timestamp event = now env" and "m_raw_text event = Some txt"
      and "record_medication env txt st =
             (st\<lparr>medication_events := medication_events st @ [event]\<rparr>, Inl e)"
  | (stored) event v s out where "truthy (extract_medication txt)"
      and "medication event = the (extract_medication txt)"
      and "m_timestamp event = now env" and "m_raw_text event = Some txt"
      and "length v = dim (faiss_index st)"
      and "record_medication env txt st =
             (st\<lparr>medication_events := medication_events st @ [event],
                 faiss_index := (faiss_index st)\<lparr>vectors := vectors (faiss_index st) @ [v]\<rparr>,
                 event_store := event_store st @ [StoredMedication event]\<rparr>,
              Inr (Check s # out))"
proof (cases "truthy (extract_medication txt)")
  case False
  then have "record_medication env txt st = (st, Inr medication_miss)"
    by (simp add: record_medication_def)
  with False show ?thesis by (rule miss)
next
  case True
  define event where "event = \<lparr>medication = the (extract_medication txt),
      dose = (if truthy (extract_dose txt) then extract_dose txt
              else Some ''dose not specified''),
      m_time_of_day = extract_time_of_day txt,
      m_relation_to_food = extract_food_relation txt, route = ''oral'',
      m_timestamp = now env, m_note = ''patient reported intake'',
      m_raw_text = Some txt\<rparr>"
  have ev: "medication event = the (extract_medication txt)" "m_timestamp event = now env"
    "m_raw_text event = Some txt" by (simp_all add: event_def)
  show ?thesis
  proof (cases "get_embedding env
      (''medication '' @ the (extract_medication txt) @ '' '' @ py_str (extract_dose txt))")
    case (Inl e)
    with True have "record_medication env txt st =
        (st\<lparr>medication_events := medication_events st @ [event]\<rparr>, Inl e)"
      by (simp add: record_medication_def Let_def event_def)
    with True ev show ?thesis by (rule raised)
  next
    case (Inr v)
    show ?thesis
    proof (cases "length v = dim (faiss_index st)")
      case False
      with True Inr have "record_medication env txt st =
          (st\<lparr>medication_events := medication_events st @ [event]\<rparr>, Inl AssertionError)"
        by (simp add: record_medication_def Let_def event_def faiss_add_def)
      with True ev show ?thesis by (rule raised)
    next
      case len: True
      with True Inr obtain s out where "record_medication env txt st =
             (st\<lparr>medication_events := medication_events st @ [event],
                 faiss_index := (faiss_index st)\<lparr>vectors := vectors (faiss_index st) @ [v]\<rparr>,
                 event_store := event_store st @ [StoredMedication event]\<rparr>,
              Inr (Check s # out))"
        by (simp add: record_medication_def Let_def event_def faiss_add_def)
      with True ev len show ?thesis by (rule stored)
    qed
  qed
qed

text \<open>The guidance lines, written out.\<close>

lemma symptom_miss_text:
  "symptom_miss =
     [Cross ''No recognized symptom found in text.'',
      Plain ''  Recognized symptoms: headache, chest pain, nausea, dizziness, fatigue, fever, breathlessness, cough, sore throat, vomiting...'']"
  by (simp add: symptom_miss_def symptoms_def)

lemma medication_miss_text:
  "medication_miss =
     [Cross ''No recognized medication found in text.'',
      Plain ''  Recognized medications: metformin, aspirin, paracetamol, ibuprofen, lisinopril, amlodipine, omeprazole, levothyroxine, atorvastatin, losartan...'']"
  by (simp add: medication_miss_def medications_def)

text \<open>
  C5. When no symptom entry (no medication entry) occurs in the lower-cased text,
  \<open>record_symptom\<close> (\<open>record_medication\<close>) returns normally, leaves the whole session as
  it was, and prints the guidance lines, which list the first ten entries of the
  vocabulary followed by "...". When an entry does occur, the call never ends with
  these lines, so the outcome can be told apart.
\<close>

theorem no_match_refused:
  "((\<forall>v \<in> set symptoms. \<not> sublist v (lower txt)) \<longrightarrow>
      record_symptom env txt st = (st, Inr symptom_miss))
   \<and> ((\<forall>v \<in> set medications. \<not> sublist v (lower txt)) \<longrightarrow>
      record_medication env txt st = (st, Inr medication_miss))
   \<and> ((\<exists>v \<in> set symptoms. sublist v (lower txt)) \<longrightarrow>
      snd (record_symptom env txt st) \<noteq> Inr symptom_miss)
   \<and> ((\<exists>v \<in> set medications. sublist v (lower txt)) \<longrightarrow>
      snd (record_medication env txt st) \<noteq> Inr medication_miss)
   \<and> symptom_miss =
       [Cross ''No recognized symptom found in text.'',
        Plain ''  Recognized symptoms: headache, chest pain, nausea, dizziness, fatigue, fever, breathlessness, cough, sore throat, vomiting...'']
   \<and> medication_miss =
       [Cross ''No recognized medication found in text.'',
        Plain ''  Recognized medications: metformin, aspirin, paracetamol, ibuprofen, lisinopril, amlodipine, omeprazole, levothyroxine, atorvastatin, losartan...'']"
proof (intro conjI impI)
  assume "\<forall>v \<in> set symptoms. \<not> sublist v (lower txt)"
  then have "extract_symptom txt = None" by (simp only: extract_symptom_def first_in_None)
  then show "record_symptom env txt st = (st, Inr symptom_miss)"
    by (simp add: record_symptom_def)
next
  assume "\<forall>v \<in> set medications. \<not> sublist v (lower txt)"
  then have "extract_medication txt = None"
    by (simp only: extract_medication_def first_in_None)
  then show "record_medication env txt st = (st, Inr medication_miss)"
    by (simp add: record_medication_def)
next
  assume ex: "\<exists>v \<in> set symptoms. sublist v (lower txt)"
  have "first_in symptoms (lower txt) \<noteq> None"
    unfolding first_in_None using ex by blast
  then have t: "truthy (extract_symptom txt)"
    unfolding truthy_extract_symptom by (simp add: extract_symptom_def)
  show "snd (record_symptom env txt st) \<noteq> Inr symptom_miss"
  proof (cases rule: record_symptom_cases [of "txt" env st])
    case miss
    with t show ?thesis by simp
  next
    case (raised e event)
    then show ?thesis by simp
  next
    case (stored event v s out)
    then show ?thesis by (simp add: symptom_miss_def)
  qed
next
  assume ex: "\<exists>v \<in> set medications. sublist v (lower txt)"
  have "first_in medications (lower txt) \<noteq> None"
    unfolding first_in_None using ex by blast
  then have t: "truthy (extract_medication txt)"
    unfolding truthy_extract_medication by (simp add: extract_medication_def)
  show "snd (record_medication env txt st) \<noteq> Inr medication_miss"
  proof (cases rule: record_medication_cases [of "txt" env st])
    case miss
    with t show ?thesis by simp
  next
    case (raised e event)
    then show ?thesis by simp
  next
    case (stored event v s out)
    then show ?thesis by (simp add: medication_miss_def)
  qed
qed (rule symptom_miss_text, rule medication_miss_text)

text \<open>C5 at a text with no symptom and no medication, on the initial session.\<close>

theorem no_match_refused_witness:
  "record_symptom \<lparr>now = ''2026-01-09T10:00:00'', get_embedding = (\<lambda>s. Inr (replicate 768 (0::nat)))\<rparr>
       ''Patient feels fine today'' init_system = (init_system, Inr symptom_miss)
   \<and> record_medication \<lparr>now = ''2026-01-09T10:00:00'', get_embedding = (\<lambda>s. Inr (replicate 768 (0::nat)))\<rparr>
       ''Patient feels fine today'' init_system = (init_system, Inr medication_miss)"
proof -
  have "first_in symptoms (lower ''Patient feels fine today'') = None"
    by (simp add: symptoms_def lower_eval)
  then have h1: "\<forall>v \<in> set symptoms. \<not> sublist v (lower ''Patient feels fine today'')"
    by (simp only: first_in_None)
  have "first_in medications (lower ''Patient feels fine today'') = None"
    by (simp add: medications_def lower_eval)
  then have h2: "\<forall>v \<in> set medications. \<not> sublist v (lower ''Patient feels fine today'')"
    by (simp only: first_in_None)
  from h1 h2 no_match_refused [of "''Patient feels fine today''"] show ?thesis by blast
qed

text \<open>
  C2 (as amended). A recording that raises has already appended its event to the
  timeline and leaves it there: the session after the call is the session before
  with that one event appended to its stream, and the index and the event store
  unchanged. A recording that returns has either changed nothing (no match) or
  appended the event, its vector and its event reference, all three.
\<close>

theorem recording_is_not_rolled_back:
  "(\<forall>e. snd (record_symptom env txt st) = Inl e \<longrightarrow>
      (\<exists>event. symptom event = the (extract_symptom txt) \<and> s_raw_text event = Some txt
         \<and> s_timestamp event = now env
         \<and> fst (record_symptom env txt st) =
             st\<lparr>symptom_events := symptom_events st @ [event]\<rparr>))
   \<and> (\<forall>e. snd (record_medication env txt st) = Inl e \<longrightarrow>
      (\<exists>event. medication event = the (extract_medication txt) \<and> m_raw_text event = Some txt
         \<and> m_timestamp event = now env
         \<and> fst (record_medication env txt st) =
             st\<lparr>medication_events := medication_events st @ [event]\<rparr>))
   \<and> (\<forall>out. snd (record_symptom env txt st) = Inr out \<longrightarrow>
      (out = symptom_miss \<and> fst (record_symptom env txt st) = st)
      \<or> (\<exists>event v. length v = dim (faiss_index st)
           \<and> fst (record_symptom env txt st) =
               st\<lparr>symptom_events := symptom_events st @ [event],
                  faiss_index := (faiss_index st)\<lparr>vectors := vectors (faiss_index st) @ [v]\<rparr>,
                  event_store := event_store st @ [StoredSymptom event]\<rparr>))
   \<and> (\<forall>out. snd (record_medication env txt st) = Inr out \<longrightarrow>
      (out = medication_miss \<and> fst (record_medication env txt st) = st)
      \<or> (\<exists>event v. length v = dim (faiss_index st)
           \<and> fst (record_medication env txt st) =
               st\<lparr>medication_events := medication_events st @ [event],
                  faiss_index := (faiss_index st)\<lparr>vectors := vectors (faiss_index st) @ [v]\<rparr>,
                  event_store := event_store st @ [StoredMedication event]\<rparr>))"
proof (intro conjI allI impI)
  fix e assume a: "snd (record_symptom env txt st) = Inl e"
  show "\<exists>event. symptom event = the (extract_symptom txt) \<and> s_raw_text event = Some txt
         \<and> s_timestamp event = now env
         \<and> fst (record_symptom env txt st) =
             st\<lparr>symptom_events := symptom_events st @ [event]\<rparr>"
  proof (cases rule: record_symptom_cases [of "txt" env st])
    case miss
    with a show ?thesis by simp
  next
    case (raised e' event)
    then show ?thesis by auto
  next
    case (stored event v s out)
    with a show ?thesis by simp
  qed
next
  fix e assume a: "snd (record_medication env txt st) = Inl e"
  show "\<exists>event. medication event = the (extract_medication txt) \<and> m_raw_text event = Some txt
         \<and> m_timestamp event = now env
         \<and> fst (record_medication env txt st) =
             st\<lparr>medication_events := medication_events st @ [event]\<rparr>"
  proof (cases rule: record_medication_cases [of "txt" env st])
    case miss
    with a show ?thesis by simp
  next
    case (raised e' event)
    then show ?thesis by auto
  next
    case (stored event v s out)
    with a show ?thesis by simp
  qed
next
  fix out assume a: "snd (record_symptom env txt st) = Inr out"
  show "(out = symptom_miss \<and> fst (record_symptom env txt st) = st)
      \<or> (\<exists>event v. length v = dim (faiss_index st)
           \<and> fst (record_symptom env txt st) =
               st\<lparr>symptom_events := symptom_events st @ [event],
                  faiss_index := (faiss_index st)\<lparr>vectors := vectors (faiss_index st) @ [v]\<rparr>,
                  event_store := event_store st @ [StoredSymptom event]\<rparr>)"
  proof (cases rule: record_symptom_cases [of "txt" env st])
    case miss
    with a show ?thesis by simp
  next
    case (raised e' event)
    with a show ?thesis by simp
  next
    case (stored event v s out')
    then have "length v = dim (faiss_index st)
           \<and> fst (record_symptom env txt st) =
               st\<lparr>symptom_events := symptom_events st @ [event],
                  faiss_index := (faiss_index st)\<lparr>vectors := vectors (faiss_index st) @ [v]\<rparr>,
                  event_store := event_store st @ [StoredSymptom event]\<rparr>" by simp
    then show ?thesis by blast
  qed
next
  fix out assume a: "snd (record_medication env txt st) = Inr out"
  show "(out = medication_miss \<and> fst (record_medication env txt st) = st)
      \<or> (\<exists>event v. length v = dim (faiss_index st)
           \<and> fst (record_medication env txt st) =
               st\<lparr>medication_events := medication_events st @ [event],
                  faiss_index := (faiss_index st)\<lparr>vectors := vectors (faiss_index st) @ [v]\<rparr>,
                  event_store := event_store st @ [StoredMedication event]\<rparr>)"
  proof (cases rule: record_medication_cases [of "txt" env st])
    case miss
    with a show ?thesis by simp
  next
    case (raised e' event)
    with a show ?thesis by simp
  next
    case (stored event v s out')
    then have "length v = dim (faiss_index st)
           \<and> fst (record_medication env txt st) =
               st\<lparr>medication_events := medication_events st @ [event],
                  faiss_index := (faiss_index st)\<lparr>vectors := vectors (faiss_index st) @ [v]\<rparr>,
                  event_store := event_store st @ [StoredMedication event]\<rparr>" by simp
    then show ?thesis by blast
  qed
qed

text \<open>A recording of a headache while the embedding model raises.\<close>

lemma headache_recognized:
  "extract_symptom ''Patient has headache'' = Some ''headache''"
  by (simp add: extract_symptom_def symptoms_def lower_eval)

lemma failing_headache:
  "record_symptom failing_env ''Patient has headache'' st =
     (st\<lparr>symptom_events := symptom_events st @
          [\<lparr>symptom = ''headache'',
            s_time_of_day = extract_time_of_day ''Patient has headache'',
            s_relation_to_food = extract_food_relation ''Patient has headache'',
            frequency_marker = extract_frequency_marker ''Patient has headache'',
            s_timestamp = ''2026-01-09T10:05:00'',
            s_raw_text = Some ''Patient has headache''\<rparr>]\<rparr>,
      Inl (OtherException ''embedding failed''))"
  by (simp add: record_symptom_def Let_def headache_recognized failing_env_def)

text \<open>
  The claim as written fails: the embedding raises, and the timeline has gained the
  event (three symptom events instead of two) while the index and the event store
  are still empty.
\<close>

theorem event_without_vector_counterexample:
  "snd (record_symptom failing_env ''Patient has headache'' init_system) =
       Inl (OtherException ''embedding failed'')
   \<and> length (symptom_events (init_system :: nat system)) = 2
   \<and> length (symptom_events
        (fst (record_symptom failing_env ''Patient has headache'' init_system))) = 3
   \<and> vectors (faiss_index
        (fst (record_symptom failing_env ''Patient has headache'' init_system))) = []
   \<and> event_store (fst (record_symptom failing_env ''Patient has headache'' init_system)) = []"
  by (simp add: failing_headache init_system_def seeded_symptom_events_def IndexFlatL2_def)

text \<open>The amended claim on the same run.\<close>

theorem recording_is_not_rolled_back_witness:
  "snd (record_symptom failing_env ''Patient has headache'' init_system) =
       Inl (OtherException ''embedding failed'')
   \<and> length (symptom_events
        (fst (record_symptom failing_env ''Patient has headache'' init_system))) =
       Suc (length (symptom_events (init_system :: nat system)))
   \<and> medication_events (fst (record_symptom failing_env ''Patient has headache'' init_system))
       = medication_events (init_system :: nat system)
   \<and> faiss_index (fst (record_symptom failing_env ''Patient has headache'' init_system))
       = faiss_index (init_system :: nat system)
   \<and> event_store (fst (record_symptom failing_env ''Patient has headache'' init_system))
       = event_store (init_system :: nat system)"
proof -
  have r: "snd (record_symptom failing_env ''Patient has headache'' (init_system :: nat system)) =
       Inl (OtherException ''embedding failed'')"
    by (simp add: failing_headache)
  note recording_is_not_rolled_back
    [of failing_env "''Patient has headache''" "init_system :: nat system", THEN conjunct1]
  with r obtain event where
    "fst (record_symptom failing_env ''Patient has headache'' (init_system :: nat system)) =
       (init_system :: nat system)
         \<lparr>symptom_events := symptom_events (init_system :: nat system) @ [event]\<rparr>"
    by blast
  with r show ?thesis by simp
qed

section \<open>Claims about the session\<close>

text \<open>What one turn of the loop adds to the index, to the event store and to the timeline.\<close>

lemma record_symptom_counts:
  "ntotal (faiss_index (fst (record_symptom env txt st))) =
     ntotal (faiss_index st) + (if documented (snd (record_symptom env txt st)) then 1 else 0)"
  "length (event_store (fst (record_symptom env txt st))) =
     length (event_store st) + (if documented (snd (record_symptom env txt st)) then 1 else 0)"
  "count_events (fst (record_symptom env txt st)) =
     count_events st + (if truthy (extract_symptom txt) then 1 else 0)"
  "documented (snd (record_symptom env txt st)) \<Longrightarrow> truthy (extract_symptom txt)"
  by (cases rule: record_symptom_cases [of "txt" env st];
      simp add: ntotal_def count_events_def symptom_miss_def)+

lemma record_medication_counts:
  "ntotal (faiss_index (fst (record_medication env txt st))) =
     ntotal (faiss_index st) + (if documented (snd (record_medication env txt st)) then 1 else 0)"
  "length (event_store (fst (record_medication env txt st))) =
     length (event_store st) + (if documented (snd (record_medication env txt st)) then 1 else 0)"
  "count_events (fst (record_medication env txt st)) =
     count_events st + (if truthy (extract_medication txt) then 1 else 0)"
  "documented (snd (record_medication env txt st)) \<Longrightarrow> truthy (extract_medication txt)"
  by (cases rule: record_medication_cases [of "txt" env st];
      simp add: ntotal_def count_events_def medication_miss_def)+

lemma exec_counts:
  "ntotal (faiss_index (exec env cmd st)) =
     ntotal (faiss_index st) + (if records env cmd st then 1 else 0)"
  "length (event_store (exec env cmd st)) =
     length (event_store st) + (if records env cmd st then 1 else 0)"
  "count_events (exec env cmd st) = count_events st + (if recognized cmd then 1 else 0)"
  "records env cmd st \<Longrightarrow> recognized cmd"
  by (cases cmd; simp add: record_symptom_counts record_medication_counts)+

text \<open>The same over a whole run, from any session.\<close>

lemma run_all_counts:
  "ntotal (faiss_index (run_all steps st)) = ntotal (faiss_index st) + count_recorded steps st"
  "length (event_store (run_all steps st)) = length (event_store st) + count_recorded steps st"
  "count_events (run_all steps st) =
     count_events st + length (filter (\<lambda>(env, cmd). recognized cmd) steps)"
  "count_recorded steps st \<le> length (filter (\<lambda>(env, cmd). recognized cmd) steps)"
proof (induction steps arbitrary: st)
  case Nil
  {
    case 1 show ?case by simp
  next
    case 2 show ?case by simp
  next
    case 3 show ?case by simp
  next
    case 4 show ?case by simp
  }
next
  case (Cons step steps)
  obtain env cmd where step: "step = (env, cmd)" by (cases step)
  {
    case 1 show ?case by (simp add: step Cons.IH(1) exec_counts(1))
  next
    case 2 show ?case by (simp add: step Cons.IH(2) exec_counts(2))
  next
    case 3 show ?case by (simp add: step Cons.IH(3) exec_counts(3))
  next
    case 4
    have "count_recorded steps (exec env cmd st)
        \<le> length (filter (\<lambda>(env, cmd). recognized cmd) steps)" by (rule Cons.IH(4))
    then show ?case using exec_counts(4) [of env cmd st] by (auto simp: step)
  }
qed

text \<open>
  C1 (as amended). In every session reached from the initial one by turns of the loop,
  the number of vectors in the index equals the number of entries of the event store,
  and both equal the number of recordings that were documented since the start (after
  N such recordings the index holds N vectors). The seeded events have no vectors: the
  timeline holds the four seeded events and one more for every recording whose text
  had a recognized name, so it is always at least four ahead of the index.
\<close>

theorem vector_index_counts_recordings:
  "ntotal (faiss_index (run_all steps init_system)) = count_recorded steps init_system
   \<and> length (event_store (run_all steps init_system)) = count_recorded steps init_system
   \<and> count_events (run_all steps init_system) =
       4 + length (filter (\<lambda>(env, cmd). recognized cmd) steps)
   \<and> count_recorded steps init_system \<le> length (filter (\<lambda>(env, cmd). recognized cmd) steps)
   \<and> ntotal (faiss_index (run_all steps init_system)) + 4
       \<le> count_events (run_all steps init_system)"
proof -
  have init: "ntotal (faiss_index init_system) = 0" "event_store init_system = []"
    "count_events init_system = 4"
    by (simp_all add: init_system_def ntotal_def IndexFlatL2_def count_events_def
        seeded_symptom_events_def seeded_medication_events_def)
  show ?thesis
    using run_all_counts [of steps init_system] by (simp add: init)
qed

text \<open>
  The claim as written fails at the initial session: four seeded events in the
  timeline, no vector in the index.
\<close>

theorem seeded_events_have_no_vectors_counterexample:
  "ntotal (faiss_index (init_system :: nat system)) = 0
   \<and> count_events (init_system :: nat system) = 4
   \<and> ntotal (faiss_index (init_system :: nat system)) \<noteq> count_events (init_system :: nat system)"
  by (simp add: init_system_def ntotal_def IndexFlatL2_def count_events_def
      seeded_symptom_events_def seeded_medication_events_def)

text \<open>A recording of aspirin with a working embedding model.\<close>

lemma aspirin_recognized: "extract_medication ''Gave aspirin'' = Some ''aspirin''"
  by (simp add: extract_medication_def medications_def lower_eval)

lemma demo_aspirin:
  "dim (faiss_index st) = 768 \<Longrightarrow>
   record_medication demo_env ''Gave aspirin'' st =
     (st\<lparr>medication_events := medication_events st @
           [\<lparr>medication = ''aspirin'',
             dose = (if truthy (extract_dose ''Gave aspirin'') then extract_dose ''Gave aspirin''
                     else Some ''dose not specified''),
             m_time_of_day = extract_time_of_day ''Gave aspirin'',
             m_relation_to_food = extract_food_relation ''Gave aspirin'',
             route = ''oral'', m_timestamp = ''2026-01-09T10:00:00'',
             m_note = ''patient reported intake'', m_raw_text = Some ''Gave aspirin''\<rparr>],
         faiss_index := (faiss_index st)\<lparr>vectors := vectors (faiss_index st) @ [replicate 768 0]\<rparr>,
         event_store := event_store st @
           [StoredMedication
             \<lparr>medication = ''aspirin'',
              dose = (if truthy (extract_dose ''Gave aspirin'') then extract_dose ''Gave aspirin''
                      else Some ''dose not specified''),
              m_time_of_day = extract_time_of_day ''Gave aspirin'',
              m_relation_to_food = extract_food_relation ''Gave aspirin'',
              route = ''oral'', m_timestamp = ''2026-01-09T10:00:00'',
              m_note = ''patient reported intake'', m_raw_text = Some ''Gave aspirin''\<rparr>]\<rparr>,
      Inr ([Check ''Medication documented: aspirin'',
            Plain (''  Dose: '' @ (if truthy (extract_dose ''Gave aspirin'')
                                   then the (extract_dose ''Gave aspirin'')
                                   else ''not specified'')),
            Plain (''  Time: '' @ extract_time_of_day ''Gave aspirin'')]
           @ (if truthy (extract_food_relation ''Gave aspirin'')
              then [Plain (''  Food relation: '' @ the (extract_food_relation ''Gave aspirin''))]
              else [])))"
  by (simp add: record_medication_def Let_def aspirin_recognized demo_env_def faiss_add_def)

lemma dim_init_system: "dim (faiss_index init_system) = 768"
  by (simp add: init_system_def IndexFlatL2_def embedding_dim_def)

text \<open>
  The amended claim on a run of two recordings, the second with a failing embedding
  model: one vector, one event reference, six events in the timeline.
\<close>

theorem vector_index_counts_recordings_witness:
  "count_recorded [(demo_env, Med ''Gave aspirin''), (failing_env, Note ''Patient has headache'')]
       init_system = 1
   \<and> ntotal (faiss_index (run_all
        [(demo_env, Med ''Gave aspirin''), (failing_env, Note ''Patient has headache'')]
        init_system)) = 1
   \<and> length (event_store (run_all
        [(demo_env, Med ''Gave aspirin''), (failing_env, Note ''Patient has headache'')]
        init_system)) = 1
   \<and> count_events (run_all
        [(demo_env, Med ''Gave aspirin''), (failing_env, Note ''Patient has headache'')]
        init_system) = 6"
proof -
  have n: "count_recorded
      [(demo_env, Med ''Gave aspirin''), (failing_env, Note ''Patient has headache'')]
      init_system = 1"
    by (simp add: demo_aspirin dim_init_system failing_headache)
  have f: "length (filter (\<lambda>(env, cmd). recognized cmd)
      [(demo_env, Med ''Gave aspirin''), (failing_env, Note ''Patient has headache'')]) = 2"
    by (simp add: aspirin_recognized headache_recognized)
  from vector_index_counts_recordings
    [of "[(demo_env, Med ''Gave aspirin''), (failing_env, Note ''Patient has headache'')]"]
    n f show ?thesis by simp
qed

section \<open>Claims about the queries\<close>

text \<open>
  A stable sort is determined by its three properties, so the insertion sort of the
  library returns what any stable sort returns.
\<close>

lemma stable_sort_unique:
  assumes "mset ys = mset xs"
    and "\<And>k. filter (\<lambda>x. f x = k) ys = filter (\<lambda>x. f x = k) xs"
    and "sorted (map f ys)"
  shows "ys = sort_key f xs"
proof -
  have "\<And>k. filter (\<lambda>x. f k = f x) ys = filter (\<lambda>x. f k = f x) xs"
  proof -
    fix k
    have "(\<lambda>x. f k = f x) = (\<lambda>x. f x = f k)" by auto
    then show "filter (\<lambda>x. f k = f x) ys = filter (\<lambda>x. f k = f x) xs"
      using assms(2) [of "f k"] by simp
  qed
  with assms(1,3) show ?thesis by (intro properties_for_sort_key [symmetric]) auto
qed

text \<open>The timeline is the stable sort of the merged streams.\<close>

lemma global_timeline_props:
  "sorted (map e_timestamp (global_timeline st))"
  "mset (global_timeline st) = mset (all_events st)"
  "filter (\<lambda>e. e_timestamp e = k) (global_timeline st) =
     filter (\<lambda>e. e_timestamp e = k) (all_events st)"
  "set (global_timeline st) = set (all_events st)"
  by (simp_all add: global_timeline_def sort_key_stable)

lemma show_timeline_cases:
  "show_timeline st =
     (if symptom_events st = [] \<and> medication_events st = [] then NoEvents
      else Timeline (global_timeline st))"
proof -
  have "global_timeline st = [] \<longleftrightarrow> all_events st = []"
    using global_timeline_props(4) [of st] by (metis set_empty)
  then show ?thesis by (simp add: show_timeline_def Let_def all_events_def)
qed

text \<open>
  C6. The global timeline is the symptom entries followed by the medication entries,
  sorted by timestamp: it is non-decreasing in timestamp, it has the same entries
  with the same multiplicities, and entries of equal timestamp keep the order they
  have in the merged list. Every event of a stream has its entry in the timeline, and
  so has the event a recording has just appended. With no event at all the view is the
  placeholder, otherwise it is the sorted list.
\<close>

theorem global_timeline_sorted_stable:
  "sorted (map e_timestamp (global_timeline st))
   \<and> mset (global_timeline st) =
       mset (map symptom_entry (symptom_events st)
             @ map medication_entry (medication_events st))
   \<and> (\<forall>k. filter (\<lambda>e. e_timestamp e = k) (global_timeline st) =
          filter (\<lambda>e. e_timestamp e = k)
            (map symptom_entry (symptom_events st)
             @ map medication_entry (medication_events st)))
   \<and> (\<forall>event \<in> set (symptom_events st). symptom_entry event \<in> set (global_timeline st))
   \<and> (\<forall>event \<in> set (medication_events st).
          medication_entry event \<in> set (global_timeline st))
   \<and> (truthy (extract_symptom txt) \<longrightarrow>
        (\<exists>event. s_raw_text event = Some txt \<and> s_timestamp event = now env
           \<and> symptom_events (fst (record_symptom env txt st)) = symptom_events st @ [event]
           \<and> symptom_entry event \<in> set (global_timeline (fst (record_symptom env txt st)))))
   \<and> (truthy (extract_medication txt) \<longrightarrow>
        (\<exists>event. m_raw_text event = Some txt \<and> m_timestamp event = now env
           \<and> medication_events (fst (record_medication env txt st)) =
               medication_events st @ [event]
           \<and> medication_entry event
               \<in> set (global_timeline (fst (record_medication env txt st)))))
   \<and> (symptom_events st = [] \<and> medication_events st = [] \<longrightarrow> show_timeline st = NoEvents)
   \<and> (symptom_events st \<noteq> [] \<or> medication_events st \<noteq> [] \<longrightarrow>
        show_timeline st = Timeline (global_timeline st))"
proof (intro conjI allI ballI impI)
  show "sorted (map e_timestamp (global_timeline st))" by (rule global_timeline_props(1))
  show "mset (global_timeline st) =
       mset (map symptom_entry (symptom_events st)
             @ map medication_entry (medication_events st))"
    using global_timeline_props(2) [of st] by (simp only: all_events_def)
  show "filter (\<lambda>e. e_timestamp e = k) (global_timeline st) =
          filter (\<lambda>e. e_timestamp e = k)
            (map symptom_entry (symptom_events st)
             @ map medication_entry (medication_events st))" for k
    using global_timeline_props(3) [of k st] by (simp only: all_events_def)
  show "symptom_entry event \<in> set (global_timeline st)"
    if "event \<in> set (symptom_events st)" for event
    using that by (simp add: global_timeline_props(4) all_events_def)
  show "medication_entry event \<in> set (global_timeline st)"
    if "event \<in> set (medication_events st)" for event
    using that by (simp add: global_timeline_props(4) all_events_def)
  show "\<exists>event. s_raw_text event = Some txt \<and> s_timestamp event = now env
           \<and> symptom_events (fst (record_symptom env txt st)) = symptom_events st @ [event]
           \<and> symptom_entry event \<in> set (global_timeline (fst (record_symptom env txt st)))"
    if t: "truthy (extract_symptom txt)"
  proof (cases rule: record_symptom_cases [of "txt" env st])
    case miss
    with t show ?thesis by simp
  next
    case (raised e event)
    then have "s_raw_text event = Some txt \<and> s_timestamp event = now env
           \<and> symptom_events (fst (record_symptom env txt st)) = symptom_events st @ [event]
           \<and> symptom_entry event \<in> set (global_timeline (fst (record_symptom env txt st)))"
      by (simp add: global_timeline_props(4) all_events_def)
    then show ?thesis by blast
  next
    case (stored event v s out)
    then have "s_raw_text event = Some txt \<and> s_timestamp event = now env
           \<and> symptom_events (fst (record_symptom env txt st)) = symptom_events st @ [event]
           \<and> symptom_entry event \<in> set (global_timeline (fst (record_symptom env txt st)))"
      by (simp add: global_timeline_props(4) all_events_def)
    then show ?thesis by blast
  qed
  show "\<exists>event. m_raw_text event = Some txt \<and> m_timestamp event = now env
           \<and> medication_events (fst (record_medication env txt st)) =
               medication_events st @ [event]
           \<and> medication_entry event
               \<in> set (global_timeline (fst (record_medication env txt st)))"
    if t: "truthy (extract_medication txt)"
  proof (cases rule: record_medication_cases [of "txt" env st])
    case miss
    with t show ?thesis by simp
  next
    case (raised e event)
    then have "m_raw_text event = Some txt \<and> m_timestamp event = now env
           \<and> medication_events (fst (record_medication env txt st)) =
               medication_events st @ [event]
           \<and> medication_entry event
               \<in> set (global_timeline (fst (record_medication env txt st)))"
      by (simp add: global_timeline_props(4) all_events_def)
    then show ?thesis by blast
  next
    case (stored event v s out)
    then have "m_raw_text event = Some txt \<and> m_timestamp event = now env
           \<and> medication_events (fst (record_medication env txt st)) =
               medication_events st @ [event]
           \<and> medication_entry event
               \<in> set (global_timeline (fst (record_medication env txt st)))"
      by (simp add: global_timeline_props(4) all_events_def)
    then show ?thesis by blast
  qed
  show "show_timeline st = NoEvents"
    if "symptom_events st = [] \<and> medication_events st = []"
    using that by (simp add: show_timeline_cases)
  show "show_timeline st = Timeline (global_timeline st)"
    if "symptom_events st \<noteq> [] \<or> medication_events st \<noteq> []"
    using that by (auto simp: show_timeline_cases)
qed

text \<open>The timeline of the seeded events.\<close>

lemma init_timeline:
  "map description (global_timeline demo_init) =
     [''lisinopril None at night'', ''chest pain at night'',
      ''metformin 1000 mg at morning'', ''headache at morning'']"
  by (simp add: global_timeline_def all_events_def init_system_def seeded_symptom_events_def
      seeded_medication_events_def symptom_entry_def medication_entry_def)

text \<open>C6 on the initial session and on a session with no event.\<close>

theorem global_timeline_sorted_stable_witness:
  "map description (global_timeline demo_init) =
     [''lisinopril None at night'', ''chest pain at night'',
      ''metformin 1000 mg at morning'', ''headache at morning'']
   \<and> sorted (map e_timestamp (global_timeline demo_init))
   \<and> show_timeline demo_init = Timeline (global_timeline demo_init)
   \<and> show_timeline demo_empty = NoEvents"
proof -
  have ne: "symptom_events demo_init \<noteq> []"
    by (simp add: init_system_def seeded_symptom_events_def)
  have e: "symptom_events demo_empty = [] \<and> medication_events demo_empty = []" by simp
  note whole = global_timeline_sorted_stable [of demo_init "''Patient has headache''" demo_env]
  note empty = global_timeline_sorted_stable [of demo_empty "''Patient has headache''" demo_env]
  from whole have s: "sorted (map e_timestamp (global_timeline demo_init))"
    by (rule conjunct1)
  from whole have "symptom_events demo_init \<noteq> [] \<or> medication_events demo_init \<noteq> [] \<longrightarrow>
      show_timeline demo_init = Timeline (global_timeline demo_init)"
    by (elim conjE)
  with ne have t: "show_timeline demo_init = Timeline (global_timeline demo_init)" by simp
  from empty have "symptom_events demo_empty = [] \<and> medication_events demo_empty = [] \<longrightarrow>
      show_timeline demo_empty = NoEvents"
    by (elim conjE)
  with e have n: "show_timeline demo_empty = NoEvents" by blast
  from init_timeline s t n show ?thesis by (intro conjI)
qed

text \<open>
  C7. A frequency query returns the events of its stream whose name, lower-cased,
  equals the lower-cased query, in the order of the stream; when there is none the view
  is the "no documented instances" message for the query. The query leaves the session
  as it was.
\<close>

theorem frequency_query_by_name:
  "symptom_frequency st name =
     (if \<exists>event \<in> set (symptom_events st). lower (symptom event) = lower name
      then Report name
             (filter (\<lambda>event. lower (symptom event) = lower name) (symptom_events st))
      else NoInstances name)
   \<and> medication_frequency st name =
     (if \<exists>event \<in> set (medication_events st). lower (medication event) = lower name
      then Report name
             (filter (\<lambda>event. lower (medication event) = lower name) (medication_events st))
      else NoInstances name)
   \<and> subseq (filter (\<lambda>event. lower (symptom event) = lower name) (symptom_events st))
        (symptom_events st)
   \<and> subseq (filter (\<lambda>event. lower (medication event) = lower name) (medication_events st))
        (medication_events st)
   \<and> exec env (Frequency name) st = st
   \<and> exec env (MedFrequency name) st = st"
proof (intro conjI)
  show "symptom_frequency st name =
     (if \<exists>event \<in> set (symptom_events st). lower (symptom event) = lower name
      then Report name
             (filter (\<lambda>event. lower (symptom event) = lower name) (symptom_events st))
      else NoInstances name)"
    by (simp add: symptom_frequency_def Let_def filter_empty_conv)
  show "medication_frequency st name =
     (if \<exists>event \<in> set (medication_events st). lower (medication event) = lower name
      then Report name
             (filter (\<lambda>event. lower (medication event) = lower name) (medication_events st))
      else NoInstances name)"
    by (simp add: medication_frequency_def Let_def filter_empty_conv)
qed simp_all

text \<open>Two queries on the seeded events, in mixed case.\<close>

lemma seeded_headache:
  "filter (\<lambda>event. lower (symptom event) = lower ''HeadAche'') (symptom_events demo_init) =
     [\<lparr>symptom = ''headache'', s_time_of_day = ''morning'',
       s_relation_to_food = Some ''after food'', frequency_marker = Some ''again'',
       s_timestamp = ''2026-01-08T09:30'', s_raw_text = None\<rparr>]"
  by (simp add: init_system_def seeded_symptom_events_def lower_eval)

lemma seeded_no_aspirin:
  "filter (\<lambda>event. lower (medication event) = lower ''Aspirin'') (medication_events demo_init)
     = []"
  by (simp add: init_system_def seeded_medication_events_def lower_eval)

text \<open>C7 on the initial session: one headache, no aspirin.\<close>

theorem frequency_query_by_name_witness:
  "symptom_frequency demo_init ''HeadAche'' =
     Report ''HeadAche''
       [\<lparr>symptom = ''headache'', s_time_of_day = ''morning'',
         s_relation_to_food = Some ''after food'', frequency_marker = Some ''again'',
         s_timestamp = ''2026-01-08T09:30'', s_raw_text = None\<rparr>]
   \<and> medication_frequency demo_init ''Aspirin'' = NoInstances ''Aspirin''"
proof -
  note q = frequency_query_by_name [of demo_init "''HeadAche''" demo_env, THEN conjunct1]
  note m = frequency_query_by_name [of demo_init "''Aspirin''" demo_env,
    THEN conjunct2, THEN conjunct1]
  have "filter (\<lambda>event. lower (symptom event) = lower ''HeadAche'')
      (symptom_events demo_init) \<noteq> []"
    unfolding seeded_headache by (rule list.distinct(2))
  then have a: "\<exists>event \<in> set (symptom_events demo_init).
      lower (symptom event) = lower ''HeadAche''"
    unfolding filter_empty_conv by blast
  have b: "\<not> (\<exists>event \<in> set (medication_events demo_init).
      lower (medication event) = lower ''Aspirin'')"
    using seeded_no_aspirin unfolding filter_empty_conv by blast
  from q a have r1: "symptom_frequency demo_init ''HeadAche'' =
      Report ''HeadAche''
        (filter (\<lambda>event. lower (symptom event) = lower ''HeadAche'') (symptom_events demo_init))"
    by (simp only: if_True)
  from m b have r2: "medication_frequency demo_init ''Aspirin'' = NoInstances ''Aspirin''"
    by (simp only: if_False)
  from r1 r2 show ?thesis unfolding seeded_headache by (rule conjI)
qed

section \<open>Claims about the note generator\<close>

text \<open>
  C8. With an empty event list, \<open>generate_nursing_note\<close> returns "No symptoms
  documented during this period." and \<open>generate_medication_note\<close> returns "No
  medications documented during this period.", and neither sends a prompt to the
  generation service, whatever the service is. With a non-empty list each sends one.
\<close>

theorem empty_notes_skip_generation:
  "generate_nursing_note gen [] = (Inr ''No symptoms documented during this period.'', [])
   \<and> generate_medication_note gen [] =
       (Inr ''No medications documented during this period.'', [])
   \<and> length (snd (generate_nursing_note gen (event # events))) = 1
   \<and> length (snd (generate_medication_note gen (med_event # med_events))) = 1"
  by (simp add: generate_nursing_note_def generate_medication_note_def Let_def)

text \<open>C8 with a generation service that raises on every prompt.\<close>

theorem empty_notes_skip_generation_witness:
  "generate_nursing_note (\<lambda>prompt. Inl (OtherException ''no model'')) [] =
       (Inr ''No symptoms documented during this period.'', [])
   \<and> generate_medication_note (\<lambda>prompt. Inl (OtherException ''no model'')) [] =
       (Inr ''No medications documented during this period.'', [])"
proof -
  note g = empty_notes_skip_generation [of "\<lambda>prompt. Inl (OtherException ''no model'')"]
  from g [THEN conjunct1] g [THEN conjunct2, THEN conjunct1] show ?thesis by (rule conjI)
qed

end
